theory Spec2Isabelle
  imports Complex_Main "HOL-Library.Log_Nat" "HOL-Library.Word"
begin

section \<open>The C type double: IEEE 754 binary64\<close>

text \<open>
  \<^verbatim>\<open>PointsProjection.c\<close> computes with \<^verbatim>\<open>double\<close> only. Its values are modelled as
  the binary64 values they are: the finite numbers (a rational, with the negative zero
  kept apart from the positive one, \<open>Fin 0\<close>), the two infinities and NaN (all NaNs are
  one value: the program never looks at a payload). Every C operator is one binary64
  operation, rounded to nearest with ties to even, which is what \<^verbatim>\<open>gcc\<close> emits for this
  file on x86-64 (no excess precision, no fused multiply-add).
\<close>

datatype double = Fin rat | NegZero | PosInf | NegInf | NaN

fun val :: "double \<Rightarrow> rat" where
  "val (Fin r) = r"
| "val NegZero = 0"
| "val PosInf = 0"
| "val NegInf = 0"
| "val NaN = 0"

fun is_finite :: "double \<Rightarrow> bool" where
  "is_finite (Fin r) = True"
| "is_finite NegZero = True"
| "is_finite PosInf = False"
| "is_finite NegInf = False"
| "is_finite NaN = False"

fun is_inf :: "double \<Rightarrow> bool" where
  "is_inf PosInf = True"
| "is_inf NegInf = True"
| "is_inf (Fin r) = False"
| "is_inf NegZero = False"
| "is_inf NaN = False"

text \<open>The sign bit (of a value that is not NaN).\<close>

fun sign :: "double \<Rightarrow> bool" where
  "sign (Fin r) = (r < 0)"
| "sign NegZero = True"
| "sign NegInf = True"
| "sign PosInf = False"
| "sign NaN = False"

definition is_zero :: "double \<Rightarrow> bool" where
  "is_zero x = (is_finite x \<and> val x = 0)"

definition signed_zero :: "bool \<Rightarrow> double" where
  "signed_zero s = (if s then NegZero else Fin 0)"

definition signed_inf :: "bool \<Rightarrow> double" where
  "signed_inf s = (if s then NegInf else PosInf)"

subsection \<open>Rounding to nearest, ties to even\<close>

definition pow2 :: "int \<Rightarrow> rat" where
  "pow2 e = (if 0 \<le> e then of_int (2 ^ nat e) else 1 / of_int (2 ^ nat (- e)))"

text \<open>
  The binary exponent of a positive fraction \<open>a / b\<close>, that is the \<open>n\<close> with
  \<open>2^n \<le> a / b < 2^(n+1)\<close>: the difference of the bit lengths, or one less.
  \<open>ilog2 q\<close> is the exponent of \<open>|q|\<close>, for \<open>q \<noteq> 0\<close>.
\<close>

definition frac_log2 :: "int \<Rightarrow> int \<Rightarrow> int" where
  "frac_log2 a b = (let d = bitlen a - bitlen b in
     if pow2 d \<le> of_int a / of_int b then d else d - 1)"

definition ilog2 :: "rat \<Rightarrow> int" where
  "ilog2 q = (case quotient_of \<bar>q\<bar> of (a, b) \<Rightarrow> frac_log2 a b)"

definition round_even :: "rat \<Rightarrow> int" where
  "round_even x = (let f = \<lfloor>x\<rfloor>; d = x - of_int f in
     if d < 1 / 2 then f
     else if 1 / 2 < d then f + 1
     else if even f then f else f + 1)"

text \<open>
  The binary64 value nearest to a rational: 53 significant bits down to the exponent
  \<open>-1022\<close>, multiples of \<open>2^-1074\<close> below (the subnormal numbers), an infinity from
  \<open>2^1024\<close> on, and a zero that keeps the sign of what was rounded.
\<close>

definition round_double :: "rat \<Rightarrow> double" where
  "round_double r = (if r = 0 then Fin 0 else
     (let e = max (ilog2 r) (- 1022) - 52;
          m = of_int (round_even (\<bar>r\<bar> / pow2 e)) * pow2 e
      in if pow2 1024 \<le> m then signed_inf (r < 0)
         else if m = 0 then signed_zero (r < 0)
         else Fin (if r < 0 then - m else m)))"

subsection \<open>The operators of C on double\<close>

definition fneg :: "double \<Rightarrow> double" where
  "fneg x = (case x of
      Fin r \<Rightarrow> (if r = 0 then NegZero else Fin (- r))
    | NegZero \<Rightarrow> Fin 0
    | PosInf \<Rightarrow> NegInf
    | NegInf \<Rightarrow> PosInf
    | NaN \<Rightarrow> NaN)"

definition fadd :: "double \<Rightarrow> double \<Rightarrow> double" where
  "fadd x y =
    (if x = NaN \<or> y = NaN then NaN
     else if is_inf x then (if is_inf y \<and> x \<noteq> y then NaN else x)
     else if is_inf y then y
     else if val x + val y = 0 then signed_zero (sign x \<and> sign y)
     else round_double (val x + val y))"

definition fsub :: "double \<Rightarrow> double \<Rightarrow> double" where
  "fsub x y = fadd x (fneg y)"

definition fmul :: "double \<Rightarrow> double \<Rightarrow> double" where
  "fmul x y =
    (if x = NaN \<or> y = NaN then NaN
     else if is_inf x \<or> is_inf y then
       (if is_zero x \<or> is_zero y then NaN else signed_inf (sign x \<noteq> sign y))
     else if val x * val y = 0 then signed_zero (sign x \<noteq> sign y)
     else round_double (val x * val y))"

definition fdiv :: "double \<Rightarrow> double \<Rightarrow> double" where
  "fdiv x y =
    (if x = NaN \<or> y = NaN then NaN
     else if is_inf x then (if is_inf y then NaN else signed_inf (sign x \<noteq> sign y))
     else if is_inf y then signed_zero (sign x \<noteq> sign y)
     else if is_zero y then (if is_zero x then NaN else signed_inf (sign x \<noteq> sign y))
     else if val x = 0 then signed_zero (sign x \<noteq> sign y)
     else round_double (val x / val y))"

text \<open>Comparisons: false as soon as an operand is NaN; the two zeros are equal.\<close>

definition flt :: "double \<Rightarrow> double \<Rightarrow> bool" where
  "flt x y = (x \<noteq> NaN \<and> y \<noteq> NaN \<and>
     (x = NegInf \<and> y \<noteq> NegInf \<or> y = PosInf \<and> x \<noteq> PosInf \<or>
      is_finite x \<and> is_finite y \<and> val x < val y))"

definition feq :: "double \<Rightarrow> double \<Rightarrow> bool" where
  "feq x y = (x \<noteq> NaN \<and> y \<noteq> NaN \<and>
     (x = y \<or> is_finite x \<and> is_finite y \<and> val x = val y))"

definition fgt :: "double \<Rightarrow> double \<Rightarrow> bool" where
  "fgt x y = flt y x"

definition fle :: "double \<Rightarrow> double \<Rightarrow> bool" where
  "fle x y = (flt x y \<or> feq x y)"

text \<open>A decimal literal of the source denotes the binary64 value nearest to it.\<close>

definition lit :: "rat \<Rightarrow> double" where
  "lit r = round_double r"

text \<open>
  The finite binary64 values: a zero, or a rational that rounding leaves as it is. The
  datatype has more finite values than binary64 has; what is proved for all of them holds
  for the binary64 ones, and the inputs of every example below are binary64 values.
\<close>

definition finite_double :: "double \<Rightarrow> bool" where
  "finite_double x = (case x of
      Fin r \<Rightarrow> round_double r = Fin r
    | NegZero \<Rightarrow> True
    | PosInf \<Rightarrow> False
    | NegInf \<Rightarrow> False
    | NaN \<Rightarrow> False)"


section \<open>The program\<close>

subsection \<open>Tunable weights, baselines and caps\<close>

text \<open>
  The sixteen \<^verbatim>\<open>static const double\<close> of the source. The model functions read them
  from a record, so that the guards of the source, which test these constants, can be
  stated for other values than the ones compiled in; \<open>shipped\<close> holds the values of
  the file, and a function \<^verbatim>\<open>f(in)\<close> of the source is \<open>f shipped i\<close>.
\<close>

record Config =
  W_BASE_LINE :: double
  W_BASE_SEASON_AVG :: double
  W_HOME_AWAY :: double
  W_GAME_TOTAL :: double
  W_TEAM_TOTAL :: double
  W_DEF_VS_POS :: double
  W_RECENT_FORM :: double
  W_MINUTES_TREND :: double
  W_PACE :: double
  W_B2B_PENALTY :: double
  LEAGUE_AVG_GAME_TOTAL :: double
  LEAGUE_AVG_TEAM_TOTAL :: double
  LEAGUE_AVG_PACE :: double
  LEAGUE_BASE_PTS_ALLOWED_POS :: double
  MULT_MIN :: double
  MULT_MAX :: double

definition shipped :: Config where
  "shipped = \<lparr>
     W_BASE_LINE = lit (60 / 100),
     W_BASE_SEASON_AVG = lit (40 / 100),
     W_HOME_AWAY = lit (4 / 100),
     W_GAME_TOTAL = lit (6 / 100),
     W_TEAM_TOTAL = lit (12 / 100),
     W_DEF_VS_POS = lit (14 / 100),
     W_RECENT_FORM = lit (8 / 100),
     W_MINUTES_TREND = lit (10 / 100),
     W_PACE = lit (6 / 100),
     W_B2B_PENALTY = lit (3 / 100),
     LEAGUE_AVG_GAME_TOTAL = lit 229,
     LEAGUE_AVG_TEAM_TOTAL = lit (1145 / 10),
     LEAGUE_AVG_PACE = lit (995 / 10),
     LEAGUE_BASE_PTS_ALLOWED_POS = lit 23,
     MULT_MIN = lit (70 / 100),
     MULT_MAX = lit (140 / 100) \<rparr>"

definition clamp :: "double \<Rightarrow> double \<Rightarrow> double \<Rightarrow> double" where
  "clamp x lo hi = (if flt x lo then lo else (if fgt x hi then hi else x))"

subsection \<open>Input and output structs\<close>

text \<open>The two flags are C \<^verbatim>\<open>int\<close>s, read as true when they are not zero.\<close>

record Inputs =
  player_name :: string
  player_line_pts :: double
  season_avg_pts :: double
  is_home :: "32 word"
  game_total_ou :: double
  team_total_ou :: double
  opp_pts_allowed_vs_pos :: double
  recent_avg_pts :: double
  season_avg_minutes :: double
  expected_minutes :: double
  matchup_pace :: double
  is_back_to_back :: "32 word"

record Output =
  base_points :: double
  mult_homeaway :: double
  mult_game_total :: double
  mult_team_total :: double
  mult_def_pos :: double
  mult_recent :: double
  mult_minutes :: double
  mult_pace :: double
  mult_b2b :: double
  uncapped_multiplier :: double
  final_multiplier :: double
  projection :: double

subsection \<open>Model functions\<close>

text \<open>
  The function \<^verbatim>\<open>base_points\<close> of the source is \<open>base_points_f\<close> here: the field of
  \<open>Output\<close> has the name.
\<close>

definition base_points_f :: "Config \<Rightarrow> Inputs \<Rightarrow> double" where
  "base_points_f c i =
     fadd (fmul (W_BASE_LINE c) (player_line_pts i))
          (fmul (W_BASE_SEASON_AVG c) (season_avg_pts i))"

definition homeaway_multiplier :: "Config \<Rightarrow> Inputs \<Rightarrow> double" where
  "homeaway_multiplier c i =
     (let delta = (if is_home i \<noteq> 0 then W_HOME_AWAY c else fneg (W_HOME_AWAY c))
      in fadd (lit 1) delta)"

definition game_total_multiplier :: "Config \<Rightarrow> Inputs \<Rightarrow> double" where
  "game_total_multiplier c i =
     (let rel = fdiv (fsub (game_total_ou i) (LEAGUE_AVG_GAME_TOTAL c))
                     (LEAGUE_AVG_GAME_TOTAL c)
      in fadd (lit 1) (fmul rel (W_GAME_TOTAL c)))"

definition team_total_multiplier :: "Config \<Rightarrow> Inputs \<Rightarrow> double" where
  "team_total_multiplier c i =
     (let rel = fdiv (fsub (team_total_ou i) (LEAGUE_AVG_TEAM_TOTAL c))
                     (LEAGUE_AVG_TEAM_TOTAL c)
      in fadd (lit 1) (fmul rel (W_TEAM_TOTAL c)))"

definition defense_vs_pos_multiplier :: "Config \<Rightarrow> Inputs \<Rightarrow> double" where
  "defense_vs_pos_multiplier c i =
     (let rel = (if fgt (LEAGUE_BASE_PTS_ALLOWED_POS c) (lit 0)
                 then fdiv (fsub (opp_pts_allowed_vs_pos i) (LEAGUE_BASE_PTS_ALLOWED_POS c))
                           (LEAGUE_BASE_PTS_ALLOWED_POS c)
                 else lit 0)
      in fadd (lit 1) (fmul rel (W_DEF_VS_POS c)))"

definition recent_form_multiplier :: "Config \<Rightarrow> Inputs \<Rightarrow> double" where
  "recent_form_multiplier c i =
     (if feq (W_RECENT_FORM c) (lit 0) \<or> fle (season_avg_pts i) (lit 0) then lit 1
      else (let rel = fdiv (fsub (recent_avg_pts i) (season_avg_pts i)) (season_avg_pts i)
            in fadd (lit 1) (fmul rel (W_RECENT_FORM c))))"

definition minutes_trend_multiplier :: "Config \<Rightarrow> Inputs \<Rightarrow> double" where
  "minutes_trend_multiplier c i =
     (if feq (W_MINUTES_TREND c) (lit 0) \<or> fle (season_avg_minutes i) (lit 0) then lit 1
      else (let rel = fdiv (fsub (expected_minutes i) (season_avg_minutes i))
                           (season_avg_minutes i)
            in fadd (lit 1) (fmul rel (W_MINUTES_TREND c))))"

definition pace_multiplier :: "Config \<Rightarrow> Inputs \<Rightarrow> double" where
  "pace_multiplier c i =
     (if feq (W_PACE c) (lit 0) \<or> fle (LEAGUE_AVG_PACE c) (lit 0) then lit 1
      else (let rel = fdiv (fsub (matchup_pace i) (LEAGUE_AVG_PACE c)) (LEAGUE_AVG_PACE c)
            in fadd (lit 1) (fmul rel (W_PACE c))))"

definition b2b_multiplier :: "Config \<Rightarrow> Inputs \<Rightarrow> double" where
  "b2b_multiplier c i =
     (if is_back_to_back i = 0 \<or> fle (W_B2B_PENALTY c) (lit 0) then lit 1
      else fsub (lit 1) (W_B2B_PENALTY c))"

definition project :: "Config \<Rightarrow> Inputs \<Rightarrow> Output" where
  "project c i =
     (let bp = base_points_f c i;
          m_homeaway = homeaway_multiplier c i;
          m_game_total = game_total_multiplier c i;
          m_team_total = team_total_multiplier c i;
          m_def_pos = defense_vs_pos_multiplier c i;
          m_recent = recent_form_multiplier c i;
          m_minutes = minutes_trend_multiplier c i;
          m_pace = pace_multiplier c i;
          m_b2b = b2b_multiplier c i;
          uncapped =
            fmul (fmul (fmul (fmul (fmul (fmul (fmul m_homeaway m_game_total) m_team_total)
              m_def_pos) m_recent) m_minutes) m_pace) m_b2b;
          final = clamp uncapped (MULT_MIN c) (MULT_MAX c)
      in \<lparr> base_points = bp,
           mult_homeaway = m_homeaway,
           mult_game_total = m_game_total,
           mult_team_total = m_team_total,
           mult_def_pos = m_def_pos,
           mult_recent = m_recent,
           mult_minutes = m_minutes,
           mult_pace = m_pace,
           mult_b2b = m_b2b,
           uncapped_multiplier = uncapped,
           final_multiplier = final,
           projection = fmul bp final \<rparr>)"

subsection \<open>Inputs of the examples\<close>

text \<open>An input record all of whose numbers are finite binary64 values.\<close>

definition finite_inputs :: "Inputs \<Rightarrow> bool" where
  "finite_inputs i =
     (finite_double (player_line_pts i) \<and> finite_double (season_avg_pts i) \<and>
      finite_double (game_total_ou i) \<and> finite_double (team_total_ou i) \<and>
      finite_double (opp_pts_allowed_vs_pos i) \<and> finite_double (recent_avg_pts i) \<and>
      finite_double (season_avg_minutes i) \<and> finite_double (expected_minutes i) \<and>
      finite_double (matchup_pace i))"

text \<open>
  The scenario of the specification: line 25.0, season average 23.0, at home, every other
  driver at its baseline, no back-to-back.
\<close>

definition scenario :: Inputs where
  "scenario = \<lparr>
     player_name = ''Player'',
     player_line_pts = lit 25,
     season_avg_pts = lit 23,
     is_home = 1,
     game_total_ou = lit 229,
     team_total_ou = lit (1145 / 10),
     opp_pts_allowed_vs_pos = lit 23,
     recent_avg_pts = lit 23,
     season_avg_minutes = lit 34,
     expected_minutes = lit 34,
     matchup_pace = lit (995 / 10),
     is_back_to_back = 0 \<rparr>"

text \<open>
  Finite inputs on which the product of the multipliers is NaN. In the first, the recent
  average \<open>-2^1023\<close> against the season average \<open>2^1023\<close> makes the difference
  overflow, and the expected minutes \<open>-9\<close> against a season average of \<open>1\<close> make the
  minutes-trend multiplier \<open>1 + (-10) * 0.10 = 0\<close>. In the second the two factors
  change places: the minutes overflow, and the recent average \<open>-23\<close> against the season
  average \<open>2\<close> makes the recent-form multiplier \<open>1 + (-12.5) * 0.08 = 0\<close>.
\<close>

definition overflow_recent :: Inputs where
  "overflow_recent = scenario \<lparr>
     season_avg_pts := Fin (pow2 1023),
     recent_avg_pts := Fin (- pow2 1023),
     season_avg_minutes := lit 1,
     expected_minutes := lit (- 9) \<rparr>"

definition overflow_minutes :: Inputs where
  "overflow_minutes = scenario \<lparr>
     season_avg_pts := lit 2,
     recent_avg_pts := lit (- 23),
     season_avg_minutes := Fin (pow2 1023),
     expected_minutes := Fin (- pow2 1023) \<rparr>"

text \<open>The constants of the file with the team-total baseline set to zero.\<close>

definition zero_team_baseline :: Config where
  "zero_team_baseline = shipped \<lparr> LEAGUE_AVG_TEAM_TOTAL := lit 0 \<rparr>"

text \<open>The scenario under another player name.\<close>

definition scenario_renamed :: Inputs where
  "scenario_renamed = scenario \<lparr> player_name := ''Somebody Else'' \<rparr>"


section \<open>Properties of the arithmetic\<close>

subsection \<open>Powers of two and the binary exponent\<close>

lemma pow2_powi: "pow2 e = 2 powi e"
  by (simp add: pow2_def power_int_def inverse_eq_divide power_one_over)

lemma pow2_pos: "0 < pow2 e"
  by (simp add: pow2_powi)

lemma pow2_add: "pow2 (a + b) = pow2 a * pow2 b"
  by (simp add: pow2_powi power_int_add)

lemma pow2_strict_mono: "a < b \<Longrightarrow> pow2 a < pow2 b"
  by (simp add: pow2_powi power_int_strict_increasing)

lemma pow2_less_iff: "pow2 a < pow2 b \<longleftrightarrow> a < b"
proof
  assume less: "pow2 a < pow2 b"
  show "a < b"
  proof (rule ccontr)
    assume "\<not> a < b"
    then have "b = a \<or> b < a" by auto
    then have "pow2 b \<le> pow2 a" using pow2_strict_mono[of b a] by auto
    with less show False by simp
  qed
qed (rule pow2_strict_mono)

lemma bitlen_lower: "0 < a \<Longrightarrow> pow2 (bitlen a - 1) \<le> of_int a"
proof -
  assume a: "0 < a"
  then have "(2::int) ^ nat (bitlen a - 1) \<le> a" using bitlen_bounds by blast
  then have "(of_int ((2::int) ^ nat (bitlen a - 1)) :: rat) \<le> of_int a"
    by (simp only: of_int_le_iff)
  moreover have "0 \<le> bitlen a - 1" using a by (simp add: bitlen_alt_def)
  ultimately show ?thesis by (simp add: pow2_def)
qed

lemma bitlen_upper: "0 < a \<Longrightarrow> of_int a < pow2 (bitlen a)"
proof -
  assume a: "0 < a"
  then have "a < (2::int) ^ nat (bitlen a)" using bitlen_bounds by blast
  then have "(of_int a :: rat) < of_int ((2::int) ^ nat (bitlen a))"
    by (simp only: of_int_less_iff)
  then show ?thesis by (simp add: pow2_def bitlen_nonneg)
qed

text \<open>\<open>frac_log2\<close> and \<open>ilog2\<close> are the binary exponent.\<close>

lemma frac_log2_bounds:
  assumes "0 < a" "0 < b"
  shows "pow2 (frac_log2 a b) \<le> of_int a / of_int b \<and>
         of_int a / of_int b < pow2 (frac_log2 a b + 1)"
proof -
  let ?q = "of_int a / of_int b :: rat"
  let ?d = "bitlen a - bitlen b"
  have b0: "(0::rat) < of_int b" using assms by simp
  have la: "pow2 (bitlen a - 1) \<le> of_int a" and ua: "of_int a < pow2 (bitlen a)"
   and lb: "pow2 (bitlen b - 1) \<le> of_int b" and ub: "of_int b < pow2 (bitlen b)"
    using assms bitlen_lower bitlen_upper by auto
  have "pow2 (?d + 1) * pow2 (bitlen b - 1) \<le> pow2 (?d + 1) * of_int b"
    using lb pow2_pos[of "?d + 1"] by simp
  moreover have "pow2 (?d + 1) * pow2 (bitlen b - 1) = pow2 (bitlen a)"
    by (simp add: pow2_add[symmetric])
  ultimately have "of_int a < pow2 (?d + 1) * of_int b" using ua by simp
  then have up: "?q < pow2 (?d + 1)" using b0 by (simp add: pos_divide_less_eq)
  have "pow2 (?d - 1) * of_int b < pow2 (?d - 1) * pow2 (bitlen b)"
    using ub pow2_pos[of "?d - 1"] by simp
  moreover have "pow2 (?d - 1) * pow2 (bitlen b) = pow2 (bitlen a - 1)"
    by (simp add: pow2_add[symmetric])
  ultimately have "pow2 (?d - 1) * of_int b < of_int a" using la by simp
  then have lo: "pow2 (?d - 1) < ?q" using b0 by (simp add: pos_less_divide_eq)
  show ?thesis
  proof (cases "pow2 ?d \<le> ?q")
    case True
    then show ?thesis using up by (simp add: frac_log2_def Let_def)
  next
    case False
    then show ?thesis using lo by (simp add: frac_log2_def Let_def)
  qed
qed

lemma ilog2_bounds:
  assumes "q \<noteq> 0"
  shows "pow2 (ilog2 q) \<le> \<bar>q\<bar> \<and> \<bar>q\<bar> < pow2 (ilog2 q + 1)"
proof -
  obtain a b where ab: "quotient_of \<bar>q\<bar> = (a, b)" by (cases "quotient_of \<bar>q\<bar>")
  then have b: "0 < b" and q: "\<bar>q\<bar> = of_int a / of_int b"
    using quotient_of_denom_pos quotient_of_div by auto
  have "0 < \<bar>q\<bar>" using assms by simp
  then have a: "0 < a" using b q by (simp add: zero_less_divide_iff)
  have "ilog2 q = frac_log2 a b"
    unfolding ilog2_def ab by simp
  then show ?thesis using frac_log2_bounds[OF a b] by (simp add: q)
qed

lemma ilog2_eqI:
  assumes "pow2 n \<le> \<bar>q\<bar>" "\<bar>q\<bar> < pow2 (n + 1)"
  shows "ilog2 q = n"
proof -
  have "q \<noteq> 0" using assms pow2_pos[of n] by auto
  then have b: "pow2 (ilog2 q) \<le> \<bar>q\<bar>" "\<bar>q\<bar> < pow2 (ilog2 q + 1)"
    using ilog2_bounds by auto
  have "pow2 n < pow2 (ilog2 q + 1)" using assms(1) b(2) by simp
  moreover have "pow2 (ilog2 q) < pow2 (n + 1)" using assms(2) b(1) by simp
  ultimately show ?thesis by (simp add: pow2_less_iff)
qed

lemma ilog2_frac: "0 < a \<Longrightarrow> 0 < b \<Longrightarrow> ilog2 (of_int a / of_int b) = frac_log2 a b"
  by (rule ilog2_eqI) (use frac_log2_bounds[of a b] in \<open>simp_all add: zero_less_divide_iff\<close>)

subsection \<open>Rounding a numeral\<close>

text \<open>
  The equations by which the simplifier rounds a given fraction: the exponent from the bit
  lengths of numerator and denominator, the nearest integer from an integer division.
\<close>

lemma ilog2_minus: "ilog2 (- q) = ilog2 q"
  by (simp add: ilog2_def)

lemma ilog2_numeral_div: "ilog2 (numeral a / numeral b) = frac_log2 (numeral a) (numeral b)"
  using ilog2_frac[of "numeral a" "numeral b"] by simp

lemma ilog2_numeral: "ilog2 (numeral a) = frac_log2 (numeral a) 1"
  using ilog2_frac[of "numeral a" 1] by simp

lemma ilog2_one_div: "ilog2 (1 / numeral b) = frac_log2 1 (numeral b)"
  using ilog2_frac[of 1 "numeral b"] by simp

lemma ilog2_one: "ilog2 1 = frac_log2 1 1"
  using ilog2_frac[of 1 1] by simp

lemma bitlen_one: "bitlen 1 = 1"
  by (simp add: bitlen_alt_def)

lemma bitlen_Bit0: "bitlen (numeral (Num.Bit0 k)) = bitlen (numeral k) + 1"
  by (subst compute_bitlen) simp

lemma bitlen_Bit1: "bitlen (numeral (Num.Bit1 k)) = bitlen (numeral k) + 1"
  by (subst compute_bitlen) simp

lemma bitlen_One: "bitlen (numeral Num.One) = 1"
  by (simp add: bitlen_one)

lemma round_even_frac:
  assumes "0 < b"
  shows "round_even (of_int a / of_int b) =
    (let q = a div b; r = a mod b in
     if 2 * r < b then q else if b < 2 * r then q + 1 else if even q then q else q + 1)"
proof -
  let ?x = "of_int a / of_int b :: rat"
  have b0: "(0::rat) < of_int b" using assms by simp
  have f: "\<lfloor>?x\<rfloor> = a div b" by (rule floor_divide_of_int_eq)
  have "of_int a = (of_int (a div b) * of_int b + of_int (a mod b) :: rat)"
    by (metis of_int_add of_int_mult div_mult_mod_eq)
  then have d: "?x - of_int (a div b) = of_int (a mod b) / of_int b"
    using b0 by (simp add: field_simps)
  have lt: "of_int (a mod b) / (of_int b :: rat) < 1 / 2 \<longleftrightarrow> 2 * (a mod b) < b"
  proof -
    have "of_int (a mod b) / (of_int b :: rat) < 1 / 2
          \<longleftrightarrow> (of_int (2 * (a mod b)) :: rat) < of_int b"
      using b0 by (simp add: field_simps)
    then show ?thesis by (simp only: of_int_less_iff)
  qed
  have gt: "1 / 2 < of_int (a mod b) / (of_int b :: rat) \<longleftrightarrow> b < 2 * (a mod b)"
  proof -
    have "1 / 2 < of_int (a mod b) / (of_int b :: rat)
          \<longleftrightarrow> (of_int b :: rat) < of_int (2 * (a mod b))"
      using b0 by (simp add: field_simps)
    then show ?thesis by (simp only: of_int_less_iff)
  qed
  show ?thesis
    unfolding round_even_def f Let_def d lt gt by simp
qed

lemma round_even_numeral_div:
  "round_even (numeral a / numeral b) =
    (let q = numeral a div numeral b; r = numeral a mod numeral b :: int in
     if 2 * r < numeral b then q else if numeral b < 2 * r then q + 1
     else if even q then q else q + 1)"
  using round_even_frac[of "numeral b" "numeral a"]
  by (simp only: of_int_numeral zero_less_numeral)

lemma round_even_one_div:
  "round_even (1 / numeral b) =
    (let q = 1 div numeral b; r = 1 mod numeral b :: int in
     if 2 * r < numeral b then q else if numeral b < 2 * r then q + 1
     else if even q then q else q + 1)"
  using round_even_frac[of "numeral b" 1]
  by (simp only: of_int_numeral of_int_1 zero_less_numeral)

lemma round_even_numeral: "round_even (numeral a) = numeral a"
  by (simp add: round_even_def)

lemma round_even_one: "round_even 1 = 1"
  by (simp add: round_even_def)

lemmas round_eval =
  round_double_def pow2_def Let_def signed_zero_def signed_inf_def
  round_even_numeral_div round_even_one_div round_even_numeral round_even_one
  ilog2_minus ilog2_numeral_div ilog2_numeral ilog2_one_div ilog2_one
  frac_log2_def bitlen_one bitlen_Bit0 bitlen_Bit1 bitlen_One

subsection \<open>The operators by cases\<close>

text \<open>
  Each operator by the form of its first operand. These are the tables of IEEE 754 for
  the special values; on two finite numbers the exact result is rounded.
\<close>

lemma fadd_Fin: "fadd (Fin a) y = (case y of
     Fin b \<Rightarrow> if a + b = 0 then Fin 0 else round_double (a + b)
   | NegZero \<Rightarrow> if a = 0 then Fin 0 else round_double a
   | PosInf \<Rightarrow> PosInf | NegInf \<Rightarrow> NegInf | NaN \<Rightarrow> NaN)"
  by (cases y) (auto simp: fadd_def signed_zero_def)

lemma fadd_NegZero: "fadd NegZero y = (case y of
     Fin b \<Rightarrow> if b = 0 then Fin 0 else round_double b
   | NegZero \<Rightarrow> NegZero
   | PosInf \<Rightarrow> PosInf | NegInf \<Rightarrow> NegInf | NaN \<Rightarrow> NaN)"
  by (cases y) (auto simp: fadd_def signed_zero_def)

lemma fadd_PosInf: "fadd PosInf y = (case y of
     Fin b \<Rightarrow> PosInf | NegZero \<Rightarrow> PosInf | PosInf \<Rightarrow> PosInf
   | NegInf \<Rightarrow> NaN | NaN \<Rightarrow> NaN)"
  by (cases y) (auto simp: fadd_def)

lemma fadd_NegInf: "fadd NegInf y = (case y of
     Fin b \<Rightarrow> NegInf | NegZero \<Rightarrow> NegInf | PosInf \<Rightarrow> NaN
   | NegInf \<Rightarrow> NegInf | NaN \<Rightarrow> NaN)"
  by (cases y) (auto simp: fadd_def)

lemma fadd_NaN: "fadd NaN y = NaN"
  by (simp add: fadd_def)

lemma fmul_Fin: "fmul (Fin a) y = (case y of
     Fin b \<Rightarrow> if a * b = 0 then signed_zero ((a < 0) \<noteq> (b < 0)) else round_double (a * b)
   | NegZero \<Rightarrow> signed_zero (\<not> a < 0)
   | PosInf \<Rightarrow> if a = 0 then NaN else signed_inf (a < 0)
   | NegInf \<Rightarrow> if a = 0 then NaN else signed_inf (\<not> a < 0)
   | NaN \<Rightarrow> NaN)"
  by (cases y) (auto simp: fmul_def is_zero_def)

lemma fmul_NegZero: "fmul NegZero y = (case y of
     Fin b \<Rightarrow> signed_zero (\<not> b < 0)
   | NegZero \<Rightarrow> Fin 0
   | PosInf \<Rightarrow> NaN | NegInf \<Rightarrow> NaN | NaN \<Rightarrow> NaN)"
  by (cases y) (auto simp: fmul_def is_zero_def signed_zero_def)

lemma fmul_PosInf: "fmul PosInf y = (case y of
     Fin b \<Rightarrow> if b = 0 then NaN else signed_inf (b < 0)
   | NegZero \<Rightarrow> NaN
   | PosInf \<Rightarrow> PosInf | NegInf \<Rightarrow> NegInf | NaN \<Rightarrow> NaN)"
  by (cases y) (auto simp: fmul_def is_zero_def signed_inf_def)

lemma fmul_NegInf: "fmul NegInf y = (case y of
     Fin b \<Rightarrow> if b = 0 then NaN else signed_inf (\<not> b < 0)
   | NegZero \<Rightarrow> NaN
   | PosInf \<Rightarrow> NegInf | NegInf \<Rightarrow> PosInf | NaN \<Rightarrow> NaN)"
  by (cases y) (auto simp: fmul_def is_zero_def signed_inf_def)

lemma fmul_NaN: "fmul NaN y = NaN"
  by (simp add: fmul_def)

lemma fmul_NaN_right: "fmul x NaN = NaN"
  by (simp add: fmul_def)

lemma fdiv_Fin: "fdiv (Fin a) y = (case y of
     Fin b \<Rightarrow> if b = 0 then (if a = 0 then NaN else signed_inf (a < 0))
              else if a = 0 then signed_zero (b < 0) else round_double (a / b)
   | NegZero \<Rightarrow> if a = 0 then NaN else signed_inf (\<not> a < 0)
   | PosInf \<Rightarrow> signed_zero (a < 0)
   | NegInf \<Rightarrow> signed_zero (\<not> a < 0)
   | NaN \<Rightarrow> NaN)"
  by (cases y) (auto simp: fdiv_def is_zero_def)

lemma fdiv_NegZero: "fdiv NegZero y = (case y of
     Fin b \<Rightarrow> if b = 0 then NaN else signed_zero (\<not> b < 0)
   | NegZero \<Rightarrow> NaN
   | PosInf \<Rightarrow> NegZero | NegInf \<Rightarrow> Fin 0 | NaN \<Rightarrow> NaN)"
  by (cases y) (auto simp: fdiv_def is_zero_def signed_zero_def)

lemma fdiv_PosInf: "fdiv PosInf y = (case y of
     Fin b \<Rightarrow> signed_inf (b < 0)
   | NegZero \<Rightarrow> NegInf
   | PosInf \<Rightarrow> NaN | NegInf \<Rightarrow> NaN | NaN \<Rightarrow> NaN)"
  by (cases y) (auto simp: fdiv_def is_zero_def signed_inf_def)

lemma fdiv_NegInf: "fdiv NegInf y = (case y of
     Fin b \<Rightarrow> signed_inf (\<not> b < 0)
   | NegZero \<Rightarrow> PosInf
   | PosInf \<Rightarrow> NaN | NegInf \<Rightarrow> NaN | NaN \<Rightarrow> NaN)"
  by (cases y) (auto simp: fdiv_def is_zero_def signed_inf_def)

lemma fdiv_NaN: "fdiv NaN y = NaN"
  by (simp add: fdiv_def)

lemmas op_eval =
  lit_def fsub_def fneg_def flt_def fle_def fgt_def feq_def is_zero_def
  fadd_Fin fadd_NegZero fadd_PosInf fadd_NegInf fadd_NaN
  fmul_Fin fmul_NegZero fmul_PosInf fmul_NegInf fmul_NaN
  fdiv_Fin fdiv_NegZero fdiv_PosInf fdiv_NegInf fdiv_NaN
  round_eval

subsection \<open>Order and sign\<close>

lemma lit_0: "lit 0 = Fin 0"
  by (simp add: lit_def round_double_def)

lemma lit_1: "lit 1 = Fin 1"
  by (simp add: op_eval)

lemma fle_zero_iff: "fle (Fin 0) x \<longleftrightarrow> x = PosInf \<or> is_finite x \<and> 0 \<le> val x"
  by (cases x) (auto simp: fle_def flt_def feq_def)

lemma round_even_nonneg: "0 \<le> x \<Longrightarrow> 0 \<le> round_even x"
  by (auto simp: round_even_def Let_def)

lemma round_double_nonneg: "0 < r \<Longrightarrow> fle (Fin 0) (round_double r)"
proof -
  assume r: "0 < r"
  let ?e = "max (ilog2 r) (- 1022) - 52"
  have "0 \<le> \<bar>r\<bar> / pow2 ?e" using pow2_pos[of ?e] by simp
  then have "0 \<le> round_even (\<bar>r\<bar> / pow2 ?e)" by (rule round_even_nonneg)
  then have "0 \<le> of_int (round_even (\<bar>r\<bar> / pow2 ?e)) * pow2 ?e"
    using pow2_pos[of ?e] by simp
  then show ?thesis using r
    by (simp add: round_double_def Let_def signed_inf_def signed_zero_def fle_zero_iff)
qed

lemma fadd_nonneg: "fle (Fin 0) x \<Longrightarrow> fle (Fin 0) y \<Longrightarrow> fle (Fin 0) (fadd x y)"
  by (cases x; cases y)
     (auto simp: fle_zero_iff fadd_def signed_zero_def
           intro!: round_double_nonneg[unfolded fle_zero_iff])

lemma fmul_nonneg:
  "fle (Fin 0) x \<Longrightarrow> fle (Fin 0) y \<Longrightarrow> \<not> (is_inf x \<and> is_zero y) \<Longrightarrow>
   \<not> (is_zero x \<and> is_inf y) \<Longrightarrow> fle (Fin 0) (fmul x y)"
  by (cases x; cases y)
     (auto simp: fle_zero_iff fmul_def is_zero_def signed_zero_def signed_inf_def
           intro!: round_double_nonneg[unfolded fle_zero_iff] mult_pos_pos)

lemma not_flt_fle: "x \<noteq> NaN \<Longrightarrow> y \<noteq> NaN \<Longrightarrow> \<not> flt x y \<Longrightarrow> fle y x"
  by (cases x; cases y) (auto simp: fle_def flt_def feq_def)

lemma fle_refl: "x \<noteq> NaN \<Longrightarrow> fle x x"
  by (simp add: fle_def feq_def)

lemma clamp_NaN: "clamp NaN lo hi = NaN"
  by (simp add: clamp_def flt_def fgt_def)

lemma clamp_range:
  assumes "x \<noteq> NaN" "lo \<noteq> NaN" "hi \<noteq> NaN" "fle lo hi"
  shows "fle lo (clamp x lo hi) \<and> fle (clamp x lo hi) hi"
  using assms by (auto simp: clamp_def fgt_def fle_refl not_flt_fle)


text \<open>\<open>round_even\<close> is a nearest integer.\<close>

lemma round_even_nearest: "\<bar>of_int (round_even x) - x\<bar> \<le> 1 / 2"
proof -
  have "of_int \<lfloor>x\<rfloor> \<le> x" and "x < of_int \<lfloor>x\<rfloor> + 1"
    by linarith+
  then show ?thesis
    unfolding round_even_def Let_def by (simp add: abs_le_iff)
qed

section \<open>Values of the constants and of the scenario\<close>

text \<open>The binary64 values that the decimal constants of the file denote.\<close>

lemma shipped_values: "shipped = \<lparr>
     W_BASE_LINE = Fin (5404319552844595 / 9007199254740992),
     W_BASE_SEASON_AVG = Fin (3602879701896397 / 9007199254740992),
     W_HOME_AWAY = Fin (5764607523034235 / 144115188075855872),
     W_GAME_TOTAL = Fin (1080863910568919 / 18014398509481984),
     W_TEAM_TOTAL = Fin (1080863910568919 / 9007199254740992),
     W_DEF_VS_POS = Fin (1261007895663739 / 9007199254740992),
     W_RECENT_FORM = Fin (5764607523034235 / 72057594037927936),
     W_MINUTES_TREND = Fin (3602879701896397 / 36028797018963968),
     W_PACE = Fin (1080863910568919 / 18014398509481984),
     W_B2B_PENALTY = Fin (1080863910568919 / 36028797018963968),
     LEAGUE_AVG_GAME_TOTAL = Fin 229,
     LEAGUE_AVG_TEAM_TOTAL = Fin (229 / 2),
     LEAGUE_AVG_PACE = Fin (199 / 2),
     LEAGUE_BASE_PTS_ALLOWED_POS = Fin 23,
     MULT_MIN = Fin (3152519739159347 / 4503599627370496),
     MULT_MAX = Fin (3152519739159347 / 2251799813685248) \<rparr>"
  by (simp add: shipped_def op_eval)

lemma scenario_values: "scenario = \<lparr>
     player_name = ''Player'',
     player_line_pts = Fin 25,
     season_avg_pts = Fin 23,
     is_home = 1,
     game_total_ou = Fin 229,
     team_total_ou = Fin (229 / 2),
     opp_pts_allowed_vs_pos = Fin 23,
     recent_avg_pts = Fin 23,
     season_avg_minutes = Fin 34,
     expected_minutes = Fin 34,
     matchup_pace = Fin (199 / 2),
     is_back_to_back = 0 \<rparr>"
  by (simp add: scenario_def op_eval)

lemmas multiplier_defs =
  base_points_f_def homeaway_multiplier_def game_total_multiplier_def
  team_total_multiplier_def defense_vs_pos_multiplier_def recent_form_multiplier_def
  minutes_trend_multiplier_def pace_multiplier_def b2b_multiplier_def

lemma scenario_output: "project shipped scenario = \<lparr>
     base_points = Fin (1702923609099469 / 70368744177664),
     mult_homeaway = Fin (1170935903116329 / 1125899906842624),
     mult_game_total = Fin 1,
     mult_team_total = Fin 1,
     mult_def_pos = Fin 1,
     mult_recent = Fin 1,
     mult_minutes = Fin 1,
     mult_pace = Fin 1,
     mult_b2b = Fin 1,
     uncapped_multiplier = Fin (1170935903116329 / 1125899906842624),
     final_multiplier = Fin (1170935903116329 / 1125899906842624),
     projection = Fin (7084162213853791 / 281474976710656) \<rparr>"
  by (simp add: project_def multiplier_defs clamp_def shipped_values scenario_values lit_0 lit_1 op_eval)

lemma mult_min_value: "lit (70 / 100) = Fin (3152519739159347 / 4503599627370496)"
  by (simp add: op_eval)

lemma mult_max_value: "lit (140 / 100) = Fin (3152519739159347 / 2251799813685248)"
  by (simp add: op_eval)

text \<open>
  ISO C lets a compiler contract \<^verbatim>\<open>a * b + c\<close> into one fused operation with a single
  rounding. On the scenario, the base blend contracted on either product is the
  \<^verbatim>\<open>double\<close> nearest to 24.2, whereas rounded operator by operator it is the next
  \<^verbatim>\<open>double\<close> above (\<open>scenario_output\<close>): the last bit of the base points depends on
  the compilation.
\<close>

lemma blend_contracted:
  "round_double (val (W_BASE_LINE shipped) * 25 + val (fmul (W_BASE_SEASON_AVG shipped) (Fin 23)))
     = lit (242 / 10) \<and>
   round_double (val (fmul (W_BASE_LINE shipped) (Fin 25)) + val (W_BASE_SEASON_AVG shipped) * 23)
     = lit (242 / 10)"
  by (simp add: shipped_values op_eval)

section \<open>The clamp and the sign of the projection\<close>

lemma final_multiplier_clamp:
  "final_multiplier (project shipped i) =
     clamp (uncapped_multiplier (project shipped i)) (lit (70 / 100)) (lit (140 / 100))"
  by (simp add: project_def Let_def shipped_def)

lemma clamped_in_range:
  assumes "x \<noteq> NaN"
  shows "fle (lit (70 / 100)) (clamp x (lit (70 / 100)) (lit (140 / 100))) \<and>
         fle (clamp x (lit (70 / 100)) (lit (140 / 100))) (lit (140 / 100))"
proof (rule clamp_range[OF assms])
  show "lit (70 / 100) \<noteq> NaN" unfolding mult_min_value by simp
  show "lit (140 / 100) \<noteq> NaN" unfolding mult_max_value by simp
  show "fle (lit (70 / 100)) (lit (140 / 100))"
    unfolding mult_min_value mult_max_value by (simp add: fle_def flt_def)
qed

lemma in_range_positive:
  assumes "fle (lit (70 / 100)) f" "fle f (lit (140 / 100))"
  shows "fle (Fin 0) f \<and> \<not> is_zero f \<and> \<not> is_inf f"
  using assms unfolding mult_min_value mult_max_value
  by (cases f) (auto simp: fle_def flt_def feq_def is_zero_def)

lemma base_points_nonneg:
  assumes "fle (lit 0) (player_line_pts i)" "fle (lit 0) (season_avg_pts i)"
  shows "fle (Fin 0) (base_points_f shipped i)"
proof -
  have l: "fle (Fin 0) (player_line_pts i)" and s: "fle (Fin 0) (season_avg_pts i)"
    using assms by (simp_all add: lit_0)
  have "fle (Fin 0) (fmul (W_BASE_LINE shipped) (player_line_pts i))"
    by (rule fmul_nonneg[OF _ l]) (simp_all add: shipped_values fle_zero_iff is_zero_def)
  moreover have "fle (Fin 0) (fmul (W_BASE_SEASON_AVG shipped) (season_avg_pts i))"
    by (rule fmul_nonneg[OF _ s]) (simp_all add: shipped_values fle_zero_iff is_zero_def)
  ultimately show ?thesis unfolding base_points_f_def by (rule fadd_nonneg)
qed

section \<open>Division by a zero baseline\<close>

lemma fdiv_zero_not_finite: "is_zero y \<Longrightarrow> \<not> is_finite (fdiv x y)"
  by (cases x; cases y) (auto simp: fdiv_def is_zero_def signed_inf_def)

lemma fmul_not_finite:
  "\<not> is_finite x \<Longrightarrow> is_finite w \<Longrightarrow> \<not> is_finite (fmul x w)"
  by (cases x; cases w) (auto simp: fmul_def is_zero_def signed_inf_def)

lemma fadd_not_finite: "\<not> is_finite y \<Longrightarrow> is_finite x \<Longrightarrow> \<not> is_finite (fadd x y)"
  by (cases x; cases y) (auto simp: fadd_def)

section \<open>The claims\<close>

text \<open>
  Claim C1. For every input record, and whatever the constants, the output of
  \<open>project\<close> has \<open>base_points\<close> the blend
  \<open>W_BASE_LINE * line + W_BASE_SEASON_AVG * season_avg\<close>, \<open>uncapped_multiplier\<close> the
  product of the eight multipliers, \<open>final_multiplier\<close> that product clamped, that is
  \<open>MULT_MIN\<close> when the product is below it, \<open>MULT_MAX\<close> when the product is above
  it, the product otherwise (which is \<open>clamp\<close> of the source), and \<open>projection\<close>
  the binary64 product of \<open>base_points\<close> and \<open>final_multiplier\<close>. In the file,
  \<open>MULT_MIN\<close> is 0.70 and \<open>MULT_MAX\<close> is 1.40.
\<close>

theorem projection_is_base_times_final:
  "base_points (project c i) =
     fadd (fmul (W_BASE_LINE c) (player_line_pts i))
          (fmul (W_BASE_SEASON_AVG c) (season_avg_pts i)) \<and>
   uncapped_multiplier (project c i) =
     fmul (fmul (fmul (fmul (fmul (fmul (fmul
       (homeaway_multiplier c i) (game_total_multiplier c i)) (team_total_multiplier c i))
       (defense_vs_pos_multiplier c i)) (recent_form_multiplier c i))
       (minutes_trend_multiplier c i)) (pace_multiplier c i)) (b2b_multiplier c i) \<and>
   final_multiplier (project c i) =
     (if flt (uncapped_multiplier (project c i)) (MULT_MIN c) then MULT_MIN c
      else if fgt (uncapped_multiplier (project c i)) (MULT_MAX c) then MULT_MAX c
      else uncapped_multiplier (project c i)) \<and>
   final_multiplier (project c i) =
     clamp (uncapped_multiplier (project c i)) (MULT_MIN c) (MULT_MAX c) \<and>
   projection (project c i) =
     fmul (base_points (project c i)) (final_multiplier (project c i)) \<and>
   MULT_MIN shipped = lit (70 / 100) \<and> MULT_MAX shipped = lit (140 / 100)"
  by (simp add: project_def Let_def clamp_def base_points_f_def shipped_def)

text \<open>
  Claim C2, as stated, fails: on the finite input \<open>overflow_recent\<close> the recent-form
  multiplier is \<open>-\<infinity>\<close> and the minutes-trend multiplier is \<open>0\<close>, their product is
  NaN, both comparisons of \<open>clamp\<close> are false on NaN, and \<open>final_multiplier\<close> is NaN,
  which is not in \<open>[0.70, 1.40]\<close>.
\<close>

theorem final_multiplier_overflow_recent:
  "finite_inputs overflow_recent \<and>
   uncapped_multiplier (project shipped overflow_recent) = NaN \<and>
   final_multiplier (project shipped overflow_recent) = NaN \<and>
   \<not> (fle (lit (70 / 100)) (final_multiplier (project shipped overflow_recent)) \<and>
      fle (final_multiplier (project shipped overflow_recent)) (lit (140 / 100)))"
  by (simp add: finite_inputs_def finite_double_def overflow_recent_def
      project_def multiplier_defs clamp_def shipped_values scenario_values lit_0 lit_1 op_eval)

text \<open>
  Claim C2, amended. For every input record whose \<open>uncapped_multiplier\<close> is not NaN,
  the field \<open>final_multiplier\<close> of the output of \<open>project\<close> lies in the closed
  interval \<open>[MULT_MIN, MULT_MAX] = [0.70, 1.40]\<close>.
\<close>

theorem final_multiplier_in_range:
  assumes "uncapped_multiplier (project shipped i) \<noteq> NaN"
  shows "fle (lit (70 / 100)) (final_multiplier (project shipped i)) \<and>
         fle (final_multiplier (project shipped i)) (lit (140 / 100))"
  unfolding final_multiplier_clamp using assms by (rule clamped_in_range)

theorem final_multiplier_in_range_witness:
  "uncapped_multiplier (project shipped scenario) \<noteq> NaN \<and>
   fle (lit (70 / 100)) (final_multiplier (project shipped scenario)) \<and>
   fle (final_multiplier (project shipped scenario)) (lit (140 / 100))"
proof -
  have h: "uncapped_multiplier (project shipped scenario) \<noteq> NaN"
    by (simp add: scenario_output)
  show ?thesis using h final_multiplier_in_range[OF h] by simp
qed

text \<open>
  Claim C3, as stated, fails: \<open>team_total_multiplier\<close> tests nothing. With the
  team-total baseline set to zero and the team total of the scenario, 114.5, it divides
  by zero and returns \<open>+\<infinity>\<close>, not 1.0.
\<close>

theorem team_total_zero_baseline_infinite:
  "fle (LEAGUE_AVG_TEAM_TOTAL zero_team_baseline) (lit 0) \<and>
   team_total_multiplier zero_team_baseline scenario = PosInf \<and>
   team_total_multiplier zero_team_baseline scenario \<noteq> lit 1"
  by (simp add: zero_team_baseline_def team_total_multiplier_def shipped_values scenario_values
      lit_0 lit_1 op_eval)

text \<open>
  Claim C3, amended. The team-total multiplier has no guard on its baseline: for all
  constants and inputs it is \<open>1 + ((team_total - baseline) / baseline) * W_TEAM_TOTAL\<close>,
  and when the baseline is a zero (the other constants as in the file) the result is an
  infinity or NaN, never a finite number such as 1.0.
\<close>

theorem team_total_unguarded:
  "team_total_multiplier c i =
     fadd (lit 1)
       (fmul (fdiv (fsub (team_total_ou i) (LEAGUE_AVG_TEAM_TOTAL c)) (LEAGUE_AVG_TEAM_TOTAL c))
             (W_TEAM_TOTAL c)) \<and>
   (is_zero b \<longrightarrow>
      \<not> is_finite (team_total_multiplier (shipped \<lparr> LEAGUE_AVG_TEAM_TOTAL := b \<rparr>) i))"
proof
  show "team_total_multiplier c i =
     fadd (lit 1)
       (fmul (fdiv (fsub (team_total_ou i) (LEAGUE_AVG_TEAM_TOTAL c)) (LEAGUE_AVG_TEAM_TOTAL c))
             (W_TEAM_TOTAL c))"
    by (simp add: team_total_multiplier_def Let_def)
  show "is_zero b \<longrightarrow>
      \<not> is_finite (team_total_multiplier (shipped \<lparr> LEAGUE_AVG_TEAM_TOTAL := b \<rparr>) i)"
  proof
    assume z: "is_zero b"
    have "\<not> is_finite (fdiv (fsub (team_total_ou i) b) b)"
      using z by (rule fdiv_zero_not_finite)
    then have "\<not> is_finite (fmul (fdiv (fsub (team_total_ou i) b) b) (W_TEAM_TOTAL shipped))"
      by (rule fmul_not_finite) (simp add: shipped_values)
    then have "\<not> is_finite (fadd (lit 1)
        (fmul (fdiv (fsub (team_total_ou i) b) b) (W_TEAM_TOTAL shipped)))"
      by (rule fadd_not_finite) (simp add: lit_1)
    then show "\<not> is_finite (team_total_multiplier (shipped \<lparr> LEAGUE_AVG_TEAM_TOTAL := b \<rparr>) i)"
      by (simp add: team_total_multiplier_def Let_def)
  qed
qed

theorem team_total_unguarded_witness:
  "is_zero (lit 0) \<and>
   \<not> is_finite (team_total_multiplier (shipped \<lparr> LEAGUE_AVG_TEAM_TOTAL := lit 0 \<rparr>) scenario)"
proof -
  have z: "is_zero (lit 0)" by (simp add: lit_0 is_zero_def)
  show ?thesis using z team_total_unguarded[of shipped scenario "lit 0"] by simp
qed

text \<open>
  Claim C4. For every input record, \<open>uncapped_multiplier\<close> is the product, from left
  to right, of the eight multipliers: home/away, game-total, team-total,
  defense-vs-position, recent-form, minutes-trend, pace, back-to-back. The base points
  are not a factor: the product does not change with the sportsbook line, nor with the two
  weights of the base blend, which the base points alone read.
\<close>

theorem uncapped_is_product_of_eight:
  "uncapped_multiplier (project c i) =
     fmul (fmul (fmul (fmul (fmul (fmul (fmul
       (homeaway_multiplier c i) (game_total_multiplier c i)) (team_total_multiplier c i))
       (defense_vs_pos_multiplier c i)) (recent_form_multiplier c i))
       (minutes_trend_multiplier c i)) (pace_multiplier c i)) (b2b_multiplier c i) \<and>
   uncapped_multiplier (project c (i \<lparr> player_line_pts := x \<rparr>)) =
     uncapped_multiplier (project c i) \<and>
   uncapped_multiplier (project (c \<lparr> W_BASE_LINE := w, W_BASE_SEASON_AVG := w' \<rparr>) i) =
     uncapped_multiplier (project c i)"
  by (simp add: project_def Let_def homeaway_multiplier_def game_total_multiplier_def
      team_total_multiplier_def defense_vs_pos_multiplier_def recent_form_multiplier_def
      minutes_trend_multiplier_def pace_multiplier_def b2b_multiplier_def)

text \<open>
  Claim C5. With the defense baseline \<open>LEAGUE_BASE_PTS_ALLOWED_POS\<close> replaced by any
  non-positive value, for every input record the defense-vs-position multiplier is
  exactly 1.0: the relative deviation is the constant 0.0 and no quotient by the baseline
  enters the result (with a zero baseline such a quotient would be an infinity or NaN).
\<close>

theorem defense_guard_neutral:
  assumes "fle b (lit 0)"
  shows "defense_vs_pos_multiplier (shipped \<lparr> LEAGUE_BASE_PTS_ALLOWED_POS := b \<rparr>) i = lit 1"
proof -
  have "\<not> fgt b (lit 0)"
    using assms by (cases b) (auto simp: lit_0 fle_def fgt_def flt_def feq_def)
  then have "defense_vs_pos_multiplier (shipped \<lparr> LEAGUE_BASE_PTS_ALLOWED_POS := b \<rparr>) i =
      fadd (lit 1) (fmul (lit 0) (W_DEF_VS_POS shipped))"
    by (simp add: defense_vs_pos_multiplier_def Let_def)
  also have "\<dots> = lit 1"
    by (simp add: shipped_values lit_0 lit_1 op_eval)
  finally show ?thesis .
qed

theorem defense_guard_neutral_witness:
  "fle (lit 0) (lit 0) \<and>
   defense_vs_pos_multiplier (shipped \<lparr> LEAGUE_BASE_PTS_ALLOWED_POS := lit 0 \<rparr>) scenario = lit 1"
proof -
  have h: "fle (lit 0) (lit 0)" by (simp add: lit_0 fle_def feq_def)
  show ?thesis using h defense_guard_neutral[OF h, of scenario] by simp
qed

text \<open>
  Claim C6. For every input record and every value of \<open>W_B2B_PENALTY\<close>: when
  \<open>is_back_to_back\<close> is false (zero) or \<open>W_B2B_PENALTY \<le> 0\<close>, the back-to-back
  multiplier is 1.0; otherwise it is \<open>1 - W_B2B_PENALTY\<close>, whatever the numbers of the
  input.
\<close>

theorem b2b_flat:
  "b2b_multiplier c i =
     (if is_back_to_back i = 0 \<or> fle (W_B2B_PENALTY c) (lit 0) then lit 1
      else fsub (lit 1) (W_B2B_PENALTY c))"
  by (simp add: b2b_multiplier_def)

text \<open>
  Claim C7. For every input record with \<open>season_avg_pts > 0\<close> and \<open>recent_avg_pts\<close>
  equal to it, the recent-form multiplier is exactly 1.0: the difference is \<open>+0\<close>, so
  are the quotient and its product with the weight, and \<open>1 + 0\<close> is \<open>1\<close> without
  rounding. The season average is a finite number, as the input contract of the
  specification has it (an infinity is no average: its difference with itself is NaN).
\<close>

theorem recent_form_neutral:
  assumes "is_finite (season_avg_pts i)" "fgt (season_avg_pts i) (lit 0)"
    and "recent_avg_pts i = season_avg_pts i"
  shows "recent_form_multiplier shipped i = lit 1"
proof -
  obtain r where r: "season_avg_pts i = Fin r" "0 < r"
    using assms(1,2) by (cases "season_avg_pts i") (auto simp: lit_0 fgt_def flt_def)
  show ?thesis
    using r by (simp add: recent_form_multiplier_def assms(3) shipped_values lit_0 lit_1 op_eval)
qed

theorem recent_form_neutral_witness:
  "is_finite (season_avg_pts scenario) \<and> fgt (season_avg_pts scenario) (lit 0) \<and>
   recent_avg_pts scenario = season_avg_pts scenario \<and>
   recent_form_multiplier shipped scenario = lit 1"
proof -
  have h1: "is_finite (season_avg_pts scenario)"
    and h2: "fgt (season_avg_pts scenario) (lit 0)"
    and h3: "recent_avg_pts scenario = season_avg_pts scenario"
    by (simp_all add: scenario_values lit_0 fgt_def flt_def)
  show ?thesis using h1 h2 h3 recent_form_neutral[OF h1 h2 h3] by simp
qed

text \<open>
  Claim C8, as stated, fails in binary64 when every operator rounds: on the scenario,
  \<open>0.4 * 23\<close> rounds up, \<open>15 +\<close> that is a tie that rounds to even, and
  \<open>base_points\<close> is not the \<^verbatim>\<open>double\<close> 24.2 but the next one above; \<open>projection\<close>
  likewise is not the \<^verbatim>\<open>double\<close> 25.168.
\<close>

theorem scenario_not_decimal:
  "base_points (project shipped scenario) \<noteq> lit (242 / 10) \<and>
   projection (project shipped scenario) \<noteq> lit (25168 / 1000)"
  by (simp add: scenario_output op_eval)

text \<open>
  Claim C8, amended. On the scenario, \<open>project\<close> returns \<open>base_points\<close> equal to
  24.2 and \<open>projection\<close> equal to 25.168 to within one unit in the last place of a
  \<^verbatim>\<open>double\<close> of that size (\<open>2^-48\<close>); every deviation-based multiplier and the
  back-to-back multiplier equal to 1.0 exactly; the home/away multiplier,
  \<open>uncapped_multiplier\<close> and \<open>final_multiplier\<close> equal to the \<^verbatim>\<open>double\<close> 1.04.
\<close>

theorem scenario_within_ulp:
  "is_finite (base_points (project shipped scenario)) \<and>
   \<bar>val (base_points (project shipped scenario)) - 242 / 10\<bar> \<le> pow2 (- 48) \<and>
   mult_homeaway (project shipped scenario) = lit (104 / 100) \<and>
   mult_game_total (project shipped scenario) = lit 1 \<and>
   mult_team_total (project shipped scenario) = lit 1 \<and>
   mult_def_pos (project shipped scenario) = lit 1 \<and>
   mult_recent (project shipped scenario) = lit 1 \<and>
   mult_minutes (project shipped scenario) = lit 1 \<and>
   mult_pace (project shipped scenario) = lit 1 \<and>
   mult_b2b (project shipped scenario) = lit 1 \<and>
   uncapped_multiplier (project shipped scenario) = lit (104 / 100) \<and>
   final_multiplier (project shipped scenario) = lit (104 / 100) \<and>
   is_finite (projection (project shipped scenario)) \<and>
   \<bar>val (projection (project shipped scenario)) - 25168 / 1000\<bar> \<le> pow2 (- 48)"
  by (simp add: scenario_output op_eval)

text \<open>
  Claim C9. \<open>project\<close> is a function of the numbers and flags of its input: two input
  records that agree on every numeric field and on the truth of both flags have the same
  output, whatever their player names.
\<close>

theorem project_ignores_name:
  assumes "player_line_pts a = player_line_pts b" "season_avg_pts a = season_avg_pts b"
    and "(is_home a \<noteq> 0) = (is_home b \<noteq> 0)"
    and "game_total_ou a = game_total_ou b" "team_total_ou a = team_total_ou b"
    and "opp_pts_allowed_vs_pos a = opp_pts_allowed_vs_pos b"
    and "recent_avg_pts a = recent_avg_pts b"
    and "season_avg_minutes a = season_avg_minutes b"
    and "expected_minutes a = expected_minutes b"
    and "matchup_pace a = matchup_pace b"
    and "(is_back_to_back a \<noteq> 0) = (is_back_to_back b \<noteq> 0)"
  shows "project c a = project c b"
proof -
  have "base_points_f c a = base_points_f c b"
    using assms(1,2) by (simp add: base_points_f_def)
  moreover have "homeaway_multiplier c a = homeaway_multiplier c b"
    using assms(3) by (simp add: homeaway_multiplier_def)
  moreover have "game_total_multiplier c a = game_total_multiplier c b"
    using assms(4) by (simp add: game_total_multiplier_def)
  moreover have "team_total_multiplier c a = team_total_multiplier c b"
    using assms(5) by (simp add: team_total_multiplier_def)
  moreover have "defense_vs_pos_multiplier c a = defense_vs_pos_multiplier c b"
    using assms(6) by (simp add: defense_vs_pos_multiplier_def)
  moreover have "recent_form_multiplier c a = recent_form_multiplier c b"
    using assms(2,7) by (simp add: recent_form_multiplier_def)
  moreover have "minutes_trend_multiplier c a = minutes_trend_multiplier c b"
    using assms(8,9) by (simp add: minutes_trend_multiplier_def)
  moreover have "pace_multiplier c a = pace_multiplier c b"
    using assms(10) by (simp add: pace_multiplier_def)
  moreover have "b2b_multiplier c a = b2b_multiplier c b"
    using assms(11) by (simp add: b2b_multiplier_def)
  ultimately show ?thesis by (simp add: project_def)
qed

theorem project_ignores_name_witness:
  "player_name scenario \<noteq> player_name scenario_renamed \<and>
   project shipped scenario = project shipped scenario_renamed"
  using project_ignores_name[of scenario scenario_renamed shipped]
  by (simp add: scenario_renamed_def scenario_def)

text \<open>
  Claim C10, as stated, fails: on the finite input \<open>overflow_minutes\<close>, whose line and
  season average are positive, the product of the multipliers is NaN, and so are
  \<open>final_multiplier\<close> and \<open>projection\<close>; NaN is not \<open>\<ge> 0\<close>.
\<close>

theorem projection_overflow_minutes:
  "finite_inputs overflow_minutes \<and>
   fle (lit 0) (player_line_pts overflow_minutes) \<and>
   fle (lit 0) (season_avg_pts overflow_minutes) \<and>
   projection (project shipped overflow_minutes) = NaN \<and>
   \<not> fle (lit 0) (projection (project shipped overflow_minutes))"
  by (simp add: finite_inputs_def finite_double_def overflow_minutes_def
      project_def multiplier_defs clamp_def shipped_values scenario_values lit_0 lit_1 op_eval)

text \<open>
  Claim C10, amended. For every input record with \<open>player_line_pts \<ge> 0\<close> and
  \<open>season_avg_pts \<ge> 0\<close> whose \<open>uncapped_multiplier\<close> is not NaN, the field
  \<open>projection\<close> of the output of \<open>project\<close> is \<open>\<ge> 0\<close>.
\<close>

theorem projection_nonneg:
  assumes "fle (lit 0) (player_line_pts i)" "fle (lit 0) (season_avg_pts i)"
    and "uncapped_multiplier (project shipped i) \<noteq> NaN"
  shows "fle (lit 0) (projection (project shipped i))"
proof -
  let ?f = "final_multiplier (project shipped i)"
  have b: "fle (Fin 0) (base_points_f shipped i)"
    using assms(1,2) by (rule base_points_nonneg)
  have "fle (lit (70 / 100)) ?f \<and> fle ?f (lit (140 / 100))"
    unfolding final_multiplier_clamp using assms(3) by (rule clamped_in_range)
  then have f: "fle (Fin 0) ?f" "\<not> is_zero ?f" "\<not> is_inf ?f"
    using in_range_positive by blast+
  have "fle (Fin 0) (fmul (base_points_f shipped i) ?f)"
    using b f by (intro fmul_nonneg) simp_all
  moreover have "projection (project shipped i) = fmul (base_points_f shipped i) ?f"
    by (simp add: project_def Let_def)
  ultimately show ?thesis by (simp add: lit_0)
qed

theorem projection_nonneg_witness:
  "fle (lit 0) (player_line_pts scenario) \<and> fle (lit 0) (season_avg_pts scenario) \<and>
   uncapped_multiplier (project shipped scenario) \<noteq> NaN \<and>
   fle (lit 0) (projection (project shipped scenario))"
proof -
  have h1: "fle (lit 0) (player_line_pts scenario)"
    and h2: "fle (lit 0) (season_avg_pts scenario)"
    by (simp_all add: scenario_values lit_0 fle_zero_iff)
  have h3: "uncapped_multiplier (project shipped scenario) \<noteq> NaN"
    by (simp add: scenario_output)
  show ?thesis using h1 h2 h3 projection_nonneg[OF h1 h2 h3] by simp
qed

end
